theory Spec2Isabelle
  imports Main
begin

section \<open>The controller of BehaviorStudio (utils/controller.py)\<close>

text \<open>
  The module is Python 2 code (ROS 1, \<^verbatim>\<open>rospy\<close>): the receive buffer \<^verbatim>\<open>data = b''\<close> is a
  \<^verbatim>\<open>str\<close>, so \<^verbatim>\<open>"##" in data\<close> and \<^verbatim>\<open>data.index('##')\<close> are substring operations on bytes.
  (Python 3 would raise \<^verbatim>\<open>TypeError\<close> at that test.) Byte strings and text are lists of
  characters here.

  The class \<^verbatim>\<open>Controller\<close> is a record of its attributes, and every method is a function
  from the controller before the call to the controller after it. A method that can raise
  returns a pair: \<open>Inl e\<close> when exception \<open>e\<close> leaves the method, \<open>Inr v\<close> when it returns
  \<open>v\<close>, together with the controller at that moment (assignments made before a raise
  stay made). What the methods do to the outside world (printing, logging, ROS service
  calls, processes, the socket) is appended to the field \<open>trace\<close>, in program order.

  The two locks serialise concurrent callers; one thread at a time is modelled, for which
  \<^verbatim>\<open>with self.__data_loc\<close> always enters. The calls into the outside world (the logger,
  the ROS services, \<^verbatim>\<open>subprocess.Popen\<close>, \<^verbatim>\<open>open\<close>, the pilot's own methods and the
  socket's \<^verbatim>\<open>sendall\<close> and \<^verbatim>\<open>close\<close>) are taken to return; they are recorded, not
  interpreted.
\<close>

subsection \<open>Python values, exceptions, effects\<close>

text \<open>
  The values that travel through the controller: what \<^verbatim>\<open>json.loads\<close> can return (a JSON
  object is a \<^verbatim>\<open>dict\<close> with text keys, kept as its list of items), and \<open>PObj\<close> for any
  other object the robot publishes (an image, a laser scan), of which only the identity
  matters. \<open>PFloat\<close> carries the bits of the float; they are never inspected.
\<close>

datatype pyval =
    PNone
  | PBool bool
  | PInt int
  | PFloat nat
  | PStr string
  | PList "pyval list"
  | PDict "(string \<times> pyval) list"
  | PObj nat

datatype exn =
    ValueError
  | KeyError
  | TypeError
  | IndexError
  | UnboundLocalError
  | AttributeError
  | PicklingError
  | StructError

datatype event =
    Print string "pyval list"
  | LogInfo string "pyval list"
  | ServiceCall string
  | OpenWrite string
  | Popen "string list"
  | PilotInitializeRobot
  | PilotReloadBrain pyval
  | SendAll string
  | Close

text \<open>
  \<open>Print s args\<close> is \<^verbatim>\<open>print(s, args...)\<close> and \<open>LogInfo s args\<close> is \<^verbatim>\<open>logger.info(s.format(args...))\<close>;
  \<open>ServiceCall n\<close> is the call of \<^verbatim>\<open>rospy.ServiceProxy(n, Empty)\<close>; \<open>OpenWrite p\<close> is
  \<^verbatim>\<open>open(p, "w")\<close>; \<open>Popen argv\<close> is \<^verbatim>\<open>subprocess.Popen(argv, ...)\<close>; \<open>SendAll bs\<close> is
  \<^verbatim>\<open>connection.sendall(bs)\<close> and \<open>Close\<close> is \<^verbatim>\<open>client_connection.close()\<close>.
\<close>

subsection \<open>The controller\<close>

text \<open>
  The pilot is set by \<^verbatim>\<open>set_pilot\<close>; of it the controller touches two
  \<^verbatim>\<open>threading.Event\<close>s (\<open>True\<close> when set) and two methods, which are recorded in the trace.
\<close>

record pilot =
  stop_event :: bool
  kill_event :: bool

text \<open>
  \<^verbatim>\<open>__init__\<close> assigns \<^verbatim>\<open>data\<close>, \<^verbatim>\<open>pose3D_data\<close>, \<^verbatim>\<open>recording\<close> and \<^verbatim>\<open>headless\<close>. It assigns
  neither \<^verbatim>\<open>rosbag_proc\<close> (first assigned in \<^verbatim>\<open>record_rosbag\<close>) nor \<^verbatim>\<open>pilot\<close> (assigned in
  \<^verbatim>\<open>set_pilot\<close>): these two fields are \<open>None\<close> while the attribute does not exist, and
  reading them then raises \<^verbatim>\<open>AttributeError\<close>. \<open>rosbag_proc = Some argv\<close> is the
  \<^verbatim>\<open>Popen\<close> object of the process started with \<open>argv\<close>; such an object is always true in
  a condition. The frame identifiers are \<^verbatim>\<open>str\<close> (docstring of \<^verbatim>\<open>update_frame\<close>), so the
  dictionary \<^verbatim>\<open>data\<close> has text keys.
\<close>

record controller =
  data :: "string \<rightharpoonup> pyval"
  pose3D_data :: pyval
  recording :: bool
  headless :: bool
  rosbag_proc :: "string list option"
  pilot :: "pilot option"
  trace :: "event list"

type_synonym 'a result = "(exn + 'a) \<times> controller"

definition emit :: "event list \<Rightarrow> controller \<Rightarrow> controller" where
  "emit es c = c\<lparr>trace := trace c @ es\<rparr>"

text \<open>
  \<^verbatim>\<open>Controller.__init__\<close> (lines 70-87). With \<^verbatim>\<open>headless\<close> it also binds the server socket
  and starts the thread that runs \<^verbatim>\<open>start_listening\<close>.
\<close>

definition Controller_init :: "bool \<Rightarrow> controller" where
  "Controller_init h =
     \<lparr>data = Map.empty, pose3D_data = PNone, recording = False, headless = h,
      rosbag_proc = None, pilot = None,
      trace = (if h then [Print ''Starting server at {}:{}'' [PStr ''localhost'', PInt 8888]]
               else [])\<rparr>"

definition set_pilot :: "pilot \<Rightarrow> controller \<Rightarrow> controller" where
  "set_pilot p c = c\<lparr>pilot := Some p\<rparr>"

subsection \<open>The shared state store\<close>

text \<open>
  \<^verbatim>\<open>update_frame\<close> (lines 160-173): \<^verbatim>\<open>self.data[frame_id] = data\<close>. With a \<^verbatim>\<open>str\<close> key the
  assignment cannot raise, so the \<^verbatim>\<open>except\<close> branch is never taken.
\<close>

definition update_frame :: "string \<Rightarrow> pyval \<Rightarrow> controller \<Rightarrow> controller" where
  "update_frame frame_id d c = c\<lparr>data := (data c)(frame_id \<mapsto> d)\<rparr>"

text \<open>
  \<^verbatim>\<open>get_data\<close> (lines 175-193) is also called by \<^verbatim>\<open>parse_msg\<close> with \<^verbatim>\<open>params[0]\<close>, any JSON
  value. \<^verbatim>\<open>self.data.get(frame_id, None)\<close> hashes the key: a \<^verbatim>\<open>list\<close> or a \<^verbatim>\<open>dict\<close> raises
  \<^verbatim>\<open>TypeError\<close>, which \<^verbatim>\<open>except Exception: pass\<close> swallows, and \<^verbatim>\<open>return data\<close> then reads
  a local that was never bound. A hashable key that is not text equals no key of the
  dictionary. A key never written gives Python's \<^verbatim>\<open>None\<close>.
\<close>

fun hashable :: "pyval \<Rightarrow> bool" where
  "hashable (PList _) = False"
| "hashable (PDict _) = False"
| "hashable _ = True"

definition get_data :: "pyval \<Rightarrow> controller \<Rightarrow> exn + pyval" where
  "get_data frame_id c =
     (if hashable frame_id
      then Inr (case frame_id of
                  PStr k \<Rightarrow> (case data c k of None \<Rightarrow> PNone | Some v \<Rightarrow> v)
                | _ \<Rightarrow> PNone)
      else Inl UnboundLocalError)"

definition update_pose3d :: "pyval \<Rightarrow> controller \<Rightarrow> controller" where
  "update_pose3d d c = c\<lparr>pose3D_data := d\<rparr>"

definition get_pose3D :: "controller \<Rightarrow> pyval" where
  "get_pose3D c = pose3D_data c"

text \<open>A run of the producer: the calls \<^verbatim>\<open>update_frame(k, v)\<close> of the list, in order.\<close>

fun update_frames :: "(string \<times> pyval) list \<Rightarrow> controller \<Rightarrow> controller" where
  "update_frames [] c = c"
| "update_frames ((k, v) # ws) c = update_frames ws (update_frame k v c)"

subsection \<open>Simulation and pilot\<close>

text \<open>
  Lines 282-294. \<^verbatim>\<open>self.pilot.stop_event.set()\<close> reads the attribute \<^verbatim>\<open>pilot\<close> first, which
  raises \<^verbatim>\<open>AttributeError\<close> when \<^verbatim>\<open>set_pilot\<close> was never called.
\<close>

definition stop_pilot :: "controller \<Rightarrow> unit result" where
  "stop_pilot c =
     (case pilot c of
        None \<Rightarrow> (Inl AttributeError, c)
      | Some p \<Rightarrow> (Inr (), c\<lparr>pilot := Some (p\<lparr>kill_event := True\<rparr>)\<rparr>))"

definition pause_pilot :: "controller \<Rightarrow> unit result" where
  "pause_pilot c =
     (case pilot c of
        None \<Rightarrow> (Inl AttributeError, c)
      | Some p \<Rightarrow> (Inr (), c\<lparr>pilot := Some (p\<lparr>stop_event := True\<rparr>)\<rparr>))"

definition resume_pilot :: "controller \<Rightarrow> unit result" where
  "resume_pilot c =
     (case pilot c of
        None \<Rightarrow> (Inl AttributeError, c)
      | Some p \<Rightarrow> (Inr (), c\<lparr>pilot := Some (p\<lparr>stop_event := False\<rparr>)\<rparr>))"

definition initialize_robot :: "controller \<Rightarrow> unit result" where
  "initialize_robot c =
     (case pause_pilot c of
        (Inl e, c1) \<Rightarrow> (Inl e, c1)
      | (Inr _, c1) \<Rightarrow> resume_pilot (emit [PilotInitializeRobot] c1))"

text \<open>\<^verbatim>\<open>reload_brain\<close> (lines 267-276).\<close>

definition reload_brain :: "pyval \<Rightarrow> controller \<Rightarrow> unit result" where
  "reload_brain brain c =
     (case pause_pilot (emit [LogInfo ''Reloading brain... {}'' [brain]] c) of
        (Inl e, c1) \<Rightarrow> (Inl e, c1)
      | (Inr _, c1) \<Rightarrow> resume_pilot (emit [PilotReloadBrain brain] c1))"

text \<open>
  Lines 219-234. \<^verbatim>\<open>pause_gazebo_simulation\<close> calls the service \<^verbatim>\<open>/gazebo/pause_physics\<close> and
  then sets the pilot's stop event. In \<^verbatim>\<open>unpause_gazebo_simulation\<close> the two lines that
  would call \<^verbatim>\<open>/gazebo/unpause_physics\<close> are commented out: the method logs and clears the
  stop event, nothing else.
\<close>

definition reset_gazebo_simulation :: "controller \<Rightarrow> controller" where
  "reset_gazebo_simulation c =
     emit [LogInfo ''Restarting simulation'' [], ServiceCall ''/gazebo/reset_world''] c"

definition pause_gazebo_simulation :: "controller \<Rightarrow> unit result" where
  "pause_gazebo_simulation c =
     (let c1 = emit [LogInfo ''Pausing simulation'' [], ServiceCall ''/gazebo/pause_physics''] c
      in case pilot c1 of
           None \<Rightarrow> (Inl AttributeError, c1)
         | Some p \<Rightarrow> (Inr (), c1\<lparr>pilot := Some (p\<lparr>stop_event := True\<rparr>)\<rparr>))"

definition unpause_gazebo_simulation :: "controller \<Rightarrow> unit result" where
  "unpause_gazebo_simulation c =
     (let c1 = emit [LogInfo ''Resuming simulation'' []] c
      in case pilot c1 of
           None \<Rightarrow> (Inl AttributeError, c1)
         | Some p \<Rightarrow> (Inr (), c1\<lparr>pilot := Some (p\<lparr>stop_event := False\<rparr>)\<rparr>))"

subsection \<open>Recording\<close>

text \<open>
  \<^verbatim>\<open>shlex.split\<close> belongs to Python's library, not to the repository. Where its argument
  depends on the caller (\<^verbatim>\<open>record_rosbag\<close>) it is the parameter \<open>split\<close>, with \<open>None\<close> for the
  \<^verbatim>\<open>ValueError\<close> it raises on an unclosed quotation or a trailing escape. In
  \<^verbatim>\<open>stop_record\<close> its argument is the constant \<^verbatim>\<open>"rosnode kill /behav_bag"\<close>, whose three
  words are written out.
\<close>

fun str_join :: "string \<Rightarrow> string list \<Rightarrow> string" where
  "str_join sep [] = []"
| "str_join sep [x] = x"
| "str_join sep (x # y # ys) = x @ sep @ str_join sep (y # ys)"

text \<open>
  \<^verbatim>\<open>stop_record\<close> (lines 255-265). The condition \<^verbatim>\<open>self.rosbag_proc and self.recording\<close>
  reads \<^verbatim>\<open>rosbag_proc\<close> first.
\<close>

definition stop_record :: "controller \<Rightarrow> unit result" where
  "stop_record c =
     (case rosbag_proc c of
        None \<Rightarrow> (Inl AttributeError, c)
      | Some proc \<Rightarrow>
          if recording c
          then (Inr (),
                emit [OpenWrite ''logs/.roslaunch_stdout.log'',
                      OpenWrite ''logs/.roslaunch_stderr.log'',
                      Popen [''rosnode'', ''kill'', ''/behav_bag'']]
                  ((emit [LogInfo ''Stopping bag recording'' []] c)\<lparr>recording := False\<rparr>))
          else (Inr (), emit [LogInfo ''No bag recording'' []] c))"

text \<open>
  \<^verbatim>\<open>record_rosbag\<close> (lines 236-253). The argument \<^verbatim>\<open>topics\<close> is overwritten before it is
  read. \<^verbatim>\<open>self.recording = True\<close> is assigned before the command is split.
\<close>

definition record_rosbag ::
  "(string \<Rightarrow> string list option) \<Rightarrow> string list \<Rightarrow> string \<Rightarrow> controller \<Rightarrow> unit result" where
  "record_rosbag split topics dataset_name c =
     (if \<not> recording c
      then
        (let c1 = (emit [LogInfo ''Recording bag at: {}'' [PStr dataset_name]] c)
                    \<lparr>recording := True\<rparr>;
             topics' = [''/F1ROS/cmd_vel'', ''/F1ROS/cameraL/image_raw''];
             command = ''rosbag record -O '' @ dataset_name @ '' '' @ str_join '' '' topics'
                         @ '' __name:=behav_bag''
         in case split command of
              None \<Rightarrow> (Inl ValueError, c1)
            | Some argv \<Rightarrow>
                (Inr (),
                 (emit [OpenWrite ''logs/.roslaunch_stdout.log'',
                        OpenWrite ''logs/.roslaunch_stderr.log'',
                        Popen argv] c1)\<lparr>rosbag_proc := Some argv\<rparr>))
      else stop_record (emit [LogInfo ''Rosbag already recording'' []] c))"

subsection \<open>Outbound frames\<close>

text \<open>
  \<^verbatim>\<open>struct.pack(">L", size)\<close>: the four bytes of \<open>size\<close>, most significant first;
  \<^verbatim>\<open>struct.error\<close> when \<open>size\<close> does not fit 32 bits. \<open>be_uint\<close> reads such bytes back, as the
  peer does.
\<close>

definition pack_BE_L :: "nat \<Rightarrow> string option" where
  "pack_BE_L n =
     (if n < 2 ^ 32
      then Some [char_of (n div 2 ^ 24 mod 256), char_of (n div 2 ^ 16 mod 256),
                 char_of (n div 2 ^ 8 mod 256), char_of (n mod 256)]
      else None)"

fun be_uint :: "nat \<Rightarrow> string \<Rightarrow> nat" where
  "be_uint acc [] = acc"
| "be_uint acc (b # bs) = be_uint (256 * acc + of_char b) bs"

text \<open>
  \<^verbatim>\<open>send_response\<close> (lines 110-115). \<^verbatim>\<open>pickle.dumps(data, 0)\<close> belongs to Python's library:
  it is the parameter \<open>dumps\<close>, with \<open>None\<close> when it raises.
\<close>

definition send_response :: "(pyval \<Rightarrow> string option) \<Rightarrow> pyval \<Rightarrow> controller \<Rightarrow> unit result" where
  "send_response dumps d c =
     (case dumps d of
        None \<Rightarrow> (Inl PicklingError, c)
      | Some compressed_data \<Rightarrow>
          (case pack_BE_L (length compressed_data) of
             None \<Rightarrow> (Inl StructError, c)
           | Some prefix \<Rightarrow> (Inr (), emit [SendAll (prefix @ compressed_data)] c)))"

subsection \<open>The dispatcher\<close>

text \<open>
  The operation codes: \<^verbatim>\<open>Enum('OP_CODE', '...')\<close> numbers its members from 1 in the order
  they are listed.
\<close>

datatype OP_CODE =
    OP_get_data
  | OP_initialize_robot
  | OP_reload_brain
  | OP_record_rosbag
  | OP_stop_record
  | OP_pause_gazebo
  | OP_unpause_gazebo
  | OP_reset_gazebo

fun OP_CODE_value :: "OP_CODE \<Rightarrow> int" where
  "OP_CODE_value OP_get_data = 1"
| "OP_CODE_value OP_initialize_robot = 2"
| "OP_CODE_value OP_reload_brain = 3"
| "OP_CODE_value OP_record_rosbag = 4"
| "OP_CODE_value OP_stop_record = 5"
| "OP_CODE_value OP_pause_gazebo = 6"
| "OP_CODE_value OP_unpause_gazebo = 7"
| "OP_CODE_value OP_reset_gazebo = 8"

text \<open>
  \<^verbatim>\<open>int(x, 16)\<close> is a builtin of Python. On text it is modelled by \<open>hex_literal\<close> for the
  literals of the form: blanks, an optional sign, an optional \<^verbatim>\<open>0x\<close>, at least one
  hexadecimal digit, blanks; these it accepts, with the value computed here. Any other
  text counts as rejected (\<^verbatim>\<open>ValueError\<close>); no theorem below rests on a rejection. On a
  value that is not text, \<^verbatim>\<open>int\<close> with a base raises \<^verbatim>\<open>TypeError\<close>.
\<close>

definition hex_digit :: "char \<Rightarrow> nat option" where
  "hex_digit ch =
     (let n = (of_char ch :: nat)
      in if 48 \<le> n \<and> n \<le> 57 then Some (n - 48)
         else if 97 \<le> n \<and> n \<le> 102 then Some (n - 87)
         else if 65 \<le> n \<and> n \<le> 70 then Some (n - 55)
         else None)"

fun hex_digits :: "nat \<Rightarrow> string \<Rightarrow> nat option" where
  "hex_digits acc [] = Some acc"
| "hex_digits acc (ch # cs) =
     (case hex_digit ch of None \<Rightarrow> None | Some d \<Rightarrow> hex_digits (16 * acc + d) cs)"

definition is_space :: "char \<Rightarrow> bool" where
  "is_space ch = (ch \<in> set [CHR '' '', CHR 0x09, CHR 0x0A, CHR 0x0B, CHR 0x0C, CHR 0x0D])"

definition strip :: "string \<Rightarrow> string" where
  "strip s = rev (dropWhile is_space (rev (dropWhile is_space s)))"

definition hex_literal :: "string \<Rightarrow> int option" where
  "hex_literal s =
     (let t = strip s;
          neg = (case t of [] \<Rightarrow> False | ch # _ \<Rightarrow> ch = CHR ''-'');
          u = (case t of [] \<Rightarrow> t | ch # r \<Rightarrow> if ch = CHR ''-'' \<or> ch = CHR ''+'' then r else t);
          v = (case u of
                 z # x # r \<Rightarrow> if z = CHR ''0'' \<and> (x = CHR ''x'' \<or> x = CHR ''X'') then r else u
               | _ \<Rightarrow> u)
      in if v = [] then None
         else (case hex_digits 0 v of
                 None \<Rightarrow> None
               | Some n \<Rightarrow> Some (if neg then - int n else int n)))"

definition py_int16 :: "pyval \<Rightarrow> exn + int" where
  "py_int16 v =
     (case v of
        PStr s \<Rightarrow> (case hex_literal s of None \<Rightarrow> Inl ValueError | Some n \<Rightarrow> Inr n)
      | _ \<Rightarrow> Inl TypeError)"

text \<open>
  \<^verbatim>\<open>msg['op']\<close>: a \<^verbatim>\<open>dict\<close> raises \<^verbatim>\<open>KeyError\<close> on a missing key; any other JSON value
  raises \<^verbatim>\<open>TypeError\<close> on a text subscript. \<^verbatim>\<open>params[0]\<close>: the first element of a list, the
  first character of a text, \<^verbatim>\<open>IndexError\<close> when either is empty, \<^verbatim>\<open>KeyError\<close> on a
  \<^verbatim>\<open>dict\<close> (its keys are text), \<^verbatim>\<open>TypeError\<close> otherwise.
\<close>

definition subscript_key :: "pyval \<Rightarrow> string \<Rightarrow> exn + pyval" where
  "subscript_key m k =
     (case m of
        PDict kvs \<Rightarrow> (case map_of kvs k of None \<Rightarrow> Inl KeyError | Some v \<Rightarrow> Inr v)
      | _ \<Rightarrow> Inl TypeError)"

definition subscript0 :: "pyval \<Rightarrow> exn + pyval" where
  "subscript0 p =
     (case p of
        PList xs \<Rightarrow> (case xs of [] \<Rightarrow> Inl IndexError | x # _ \<Rightarrow> Inr x)
      | PStr s \<Rightarrow> (case s of [] \<Rightarrow> Inl IndexError | ch # _ \<Rightarrow> Inr (PStr [ch]))
      | PDict kvs \<Rightarrow> Inl KeyError
      | _ \<Rightarrow> Inl TypeError)"

text \<open>
  The \<^verbatim>\<open>try\<close> block of \<^verbatim>\<open>parse_msg\<close> (lines 119-123) binds the locals \<^verbatim>\<open>op\<close> and \<^verbatim>\<open>params\<close>,
  in this order. An exception leaves the later ones unbound (\<open>None\<close> here), is caught, and
  the message is printed; execution then goes on to line 125.
\<close>

definition parse_msg_fields :: "pyval \<Rightarrow> controller \<Rightarrow> (int option \<times> pyval option) \<times> controller" where
  "parse_msg_fields m c =
     (case subscript_key m ''op'' of
        Inl _ \<Rightarrow> ((None, None), emit [Print ''No supported operation'' [m]] c)
      | Inr v \<Rightarrow>
          (case py_int16 v of
             Inl _ \<Rightarrow> ((None, None), emit [Print ''No supported operation'' [m]] c)
           | Inr n \<Rightarrow>
               (case subscript_key m ''params'' of
                  Inl _ \<Rightarrow> ((Some n, None), emit [Print ''No supported operation'' [m]] c)
                | Inr p \<Rightarrow> ((Some n, Some p), c))))"

text \<open>
  \<^verbatim>\<open>parse_msg\<close> (lines 117-148). \<^verbatim>\<open>json.loads(msg.decode('utf-8'))\<close> belongs to Python's
  library: it is the parameter \<open>loads\<close>, with \<open>None\<close> when the bytes are not UTF-8 or not
  JSON (both are a \<^verbatim>\<open>ValueError\<close>); it stands before the \<^verbatim>\<open>try\<close>. Reading \<^verbatim>\<open>op\<close> or
  \<^verbatim>\<open>params\<close> while unbound raises \<^verbatim>\<open>UnboundLocalError\<close>. Only the branch of \<^verbatim>\<open>get_data\<close>
  calls \<^verbatim>\<open>send_response\<close>; the others assign the local \<^verbatim>\<open>response\<close>, which is not read
  again.
\<close>

definition parse_msg ::
  "(string \<Rightarrow> pyval option) \<Rightarrow> (pyval \<Rightarrow> string option) \<Rightarrow> string \<Rightarrow> controller \<Rightarrow> unit result" where
  "parse_msg loads dumps msg c =
     (case loads msg of
        None \<Rightarrow> (Inl ValueError, c)
      | Some m \<Rightarrow>
          (case parse_msg_fields m c of
             ((None, _), c1) \<Rightarrow> (Inl UnboundLocalError, c1)
           | ((Some n, params), c1) \<Rightarrow>
               if n = OP_CODE_value OP_get_data then
                 (case params of
                    None \<Rightarrow> (Inl UnboundLocalError, c1)
                  | Some p \<Rightarrow>
                      (case subscript0 p of
                         Inl e \<Rightarrow> (Inl e, c1)
                       | Inr k \<Rightarrow>
                           (case get_data k c1 of
                              Inl e \<Rightarrow> (Inl e, c1)
                            | Inr response \<Rightarrow> send_response dumps response c1)))
               else if n = OP_CODE_value OP_initialize_robot then initialize_robot c1
               else if n = OP_CODE_value OP_reload_brain then
                 (case params of
                    None \<Rightarrow> (Inl UnboundLocalError, c1)
                  | Some p \<Rightarrow>
                      (case subscript0 p of
                         Inl e \<Rightarrow> (Inl e, c1)
                       | Inr brain \<Rightarrow> reload_brain brain c1))
               else if n = OP_CODE_value OP_record_rosbag then (Inr (), c1)
               else if n = OP_CODE_value OP_stop_record then (Inr (), c1)
               else if n = OP_CODE_value OP_pause_gazebo then pause_gazebo_simulation c1
               else if n = OP_CODE_value OP_unpause_gazebo then unpause_gazebo_simulation c1
               else if n = OP_CODE_value OP_reset_gazebo then (Inr (), reset_gazebo_simulation c1)
               else (Inr (), emit [Print ''Undefined operation'' []] c1)))"

subsection \<open>The connection server\<close>

text \<open>
  \<^verbatim>\<open>"##" in data\<close> and \<^verbatim>\<open>data.index('##')\<close>: the position of the first \<^verbatim>\<open>##\<close>, if there is one.
\<close>

fun find_delim :: "string \<Rightarrow> nat option" where
  "find_delim (a # b # rest) =
     (if a = CHR ''#'' \<and> b = CHR ''#'' then Some 0
      else map_option Suc (find_delim (b # rest)))"
| "find_delim _ = None"

text \<open>
  One round of the inner loop of \<^verbatim>\<open>start_listening\<close> (lines 96-103): \<open>chunk\<close> is what
  \<^verbatim>\<open>recv\<close> returned (at most \<^verbatim>\<open>socket.MSG_WAITALL\<close> bytes, the number passed as buffer
  size), \<open>buf\<close> the local \<^verbatim>\<open>data\<close> before the round. The test of line 98 is an
  \<^verbatim>\<open>if\<close>: at most one message is cut off and passed to \<^verbatim>\<open>parse_msg\<close> in a round. An
  exception leaves the loop through the \<^verbatim>\<open>finally\<close> clause (lines 106-108), which prints and
  closes the connection, and goes on out of \<^verbatim>\<open>start_listening\<close>, as nothing catches it. The
  result is \<open>Inr buf'\<close>, the buffer for the next round, or \<open>Inl e\<close> when the connection was
  closed by exception \<open>e\<close>.
\<close>

definition recv_step ::
  "(string \<Rightarrow> pyval option) \<Rightarrow> (pyval \<Rightarrow> string option) \<Rightarrow> string \<Rightarrow> string \<Rightarrow> controller
     \<Rightarrow> (exn + string) \<times> controller" where
  "recv_step loads dumps chunk buf c =
     (let data = buf @ chunk
      in case find_delim data of
           None \<Rightarrow> (Inr data, c)
         | Some index \<Rightarrow>
             (case parse_msg loads dumps (take index data) c of
                (Inl e, c1) \<Rightarrow> (Inl e, emit [Print ''Closing connection with {}:{}'' [], Close] c1)
              | (Inr _, c1) \<Rightarrow> (Inr (drop (index + 2) data), c1)))"

text \<open>
  The inner loop has no exit but an exception. \<open>recv_loop\<close> runs it for the results of the
  first \<^verbatim>\<open>recv\<close> calls, given as a list, from \<^verbatim>\<open>data = b''\<close> or any other buffer: it returns
  \<open>Inr buf\<close> when the loop is then waiting in the next \<^verbatim>\<open>recv\<close> with buffer \<open>buf\<close>, and
  \<open>Inl e\<close> when exception \<open>e\<close> has closed the connection before.
\<close>

fun recv_loop ::
  "(string \<Rightarrow> pyval option) \<Rightarrow> (pyval \<Rightarrow> string option) \<Rightarrow> string list \<Rightarrow> string \<Rightarrow> controller
     \<Rightarrow> (exn + string) \<times> controller" where
  "recv_loop loads dumps [] buf c = (Inr buf, c)"
| "recv_loop loads dumps (chunk # chunks) buf c =
     (case recv_step loads dumps chunk buf c of
        (Inl e, c1) \<Rightarrow> (Inl e, c1)
      | (Inr buf1, c1) \<Rightarrow> recv_loop loads dumps chunks buf1 c1)"

subsection \<open>Library functions at the inputs of the examples\<close>

text \<open>
  The values of \<^verbatim>\<open>json.loads\<close>, \<^verbatim>\<open>pickle.dumps(., 0)\<close> and \<^verbatim>\<open>shlex.split\<close> at the inputs the
  examples below run on. The general theorems hold for every \<open>loads\<close>, \<open>dumps\<close> and
  \<open>split\<close>; the tables only make the examples closed terms. \<^verbatim>\<open>json.loads\<close> rejects the last
  frame of the examples, \<^verbatim>\<open>{"op":\<close>, which is cut off; \<^verbatim>\<open>pickle.dumps(None, 0)\<close> is \<^verbatim>\<open>N.\<close>.
\<close>

definition frame_loads :: "string \<Rightarrow> pyval option" where
  \<open>frame_loads =
     map_of
       [(''{"op":"06","params":[]}'', PDict [(''op'', PStr ''06''), (''params'', PList [])]),
        (''{"op":"07","params":[]}'', PDict [(''op'', PStr ''07''), (''params'', PList [])]),
        (''{"op":"08","params":[]}'', PDict [(''op'', PStr ''08''), (''params'', PList [])]),
        (''{"op":"09","params":[]}'', PDict [(''op'', PStr ''09''), (''params'', PList [])]),
        (''{"op":"01","params":["camera"]}'',
           PDict [(''op'', PStr ''01''), (''params'', PList [PStr ''camera''])]),
        (''{}'', PDict [])]\<close>

definition none_dumps :: "pyval \<Rightarrow> string option" where
  "none_dumps = map_of [(PNone, ''N.'')]"

definition bag_split :: "string \<Rightarrow> string list option" where
  "bag_split =
     map_of
       [(''rosbag record -O run1.bag /F1ROS/cmd_vel /F1ROS/cameraL/image_raw __name:=behav_bag'',
         [''rosbag'', ''record'', ''-O'', ''run1.bag'', ''/F1ROS/cmd_vel'',
          ''/F1ROS/cameraL/image_raw'', ''__name:=behav_bag''])]"

text \<open>A pilot with both events clear, as after its construction.\<close>

definition idle_pilot :: pilot where
  "idle_pilot = \<lparr>stop_event = False, kill_event = False\<rparr>"

section \<open>Properties\<close>

subsection \<open>Auxiliary facts\<close>

text \<open>
  What \<^verbatim>\<open>parse_msg\<close> does once the frame has decoded to an object whose \<^verbatim>\<open>op\<close> is a
  hexadecimal literal, branch by branch, what one round of the receive loop does with a
  buffer that holds a delimiter, and the bytes of \<^verbatim>\<open>struct.pack\<close>.
\<close>

lemma emit_emit: "emit es2 (emit es1 c) = emit (es1 @ es2) c"
  by (simp add: emit_def)

lemma emit_Nil: "emit [] c = c"
  by (simp add: emit_def)

lemma parse_msg_fields_both:
  "map_of kvs ''op'' = Some (PStr s) \<Longrightarrow> hex_literal s = Some n \<Longrightarrow>
   map_of kvs ''params'' = Some p \<Longrightarrow>
   parse_msg_fields (PDict kvs) c = ((Some n, Some p), c)"
  by (simp add: parse_msg_fields_def subscript_key_def py_int16_def)

lemma parse_msg_fields_no_params:
  "map_of kvs ''op'' = Some (PStr s) \<Longrightarrow> hex_literal s = Some n \<Longrightarrow>
   map_of kvs ''params'' = None \<Longrightarrow>
   parse_msg_fields (PDict kvs) c =
     ((Some n, None), emit [Print ''No supported operation'' [PDict kvs]] c)"
  by (simp add: parse_msg_fields_def subscript_key_def py_int16_def)

lemma parse_msg_fields_no_op:
  "map_of kvs ''op'' = None \<Longrightarrow>
   parse_msg_fields (PDict kvs) c =
     ((None, None), emit [Print ''No supported operation'' [PDict kvs]] c)"
  by (simp add: parse_msg_fields_def subscript_key_def)

lemma parse_msg_fields_op:
  "map_of kvs ''op'' = Some (PStr s) \<Longrightarrow> hex_literal s = Some n \<Longrightarrow>
   parse_msg_fields (PDict kvs) c =
     ((Some n, map_of kvs ''params''),
      emit (if map_of kvs ''params'' = None then [Print ''No supported operation'' [PDict kvs]]
            else []) c)"
  by (cases "map_of kvs ''params''")
     (simp_all add: parse_msg_fields_both parse_msg_fields_no_params emit_Nil)

lemma parse_msg_undefined:
  assumes "loads msg = Some (PDict kvs)" "map_of kvs ''op'' = Some (PStr s)"
    "hex_literal s = Some n" "n < 1 \<or> 8 < n"
  shows "parse_msg loads dumps msg c =
     (Inr (), emit ((if map_of kvs ''params'' = None
                     then [Print ''No supported operation'' [PDict kvs]] else [])
                    @ [Print ''Undefined operation'' []]) c)"
proof -
  have ne: "n \<noteq> 1" "n \<noteq> 2" "n \<noteq> 3" "n \<noteq> 4" "n \<noteq> 5" "n \<noteq> 6" "n \<noteq> 7" "n \<noteq> 8"
    using assms(4) by auto
  show ?thesis
    by (simp add: parse_msg_def parse_msg_fields_op [OF assms(2,3)] assms(1) ne emit_emit)
qed

lemma be_digits:
  fixes n :: nat
  assumes "n < 2 ^ 32"
  shows "256 * (256 * (256 * (n div 2 ^ 24 mod 256) + n div 2 ^ 16 mod 256)
           + n div 2 ^ 8 mod 256) + n mod 256 = n"
proof -
  define k1 where "k1 = n div 256"
  define k2 where "k2 = k1 div 256"
  define k3 where "k3 = k2 div 256"
  have d8: "n div 2 ^ 8 = k1" by (simp add: k1_def)
  have d16: "n div 2 ^ 16 = k2"
    using div_mult2_eq [of n 256 256] by (simp add: k1_def k2_def)
  have d24: "n div 2 ^ 24 = k3"
    using div_mult2_eq [of n 65536 256] d16 by (simp add: k3_def)
  have "k3 < 256"
    using assms d24 less_mult_imp_div_less [of n 256 "2 ^ 24"] by simp
  then have s3: "256 * (k3 mod 256) + k2 mod 256 = k2"
    by (simp add: k3_def)
  have s2: "256 * k2 + k1 mod 256 = k1"
    by (simp add: k2_def)
  have s1: "256 * k1 + n mod 256 = n"
    by (simp add: k1_def)
  show ?thesis
    by (simp only: d8 d16 d24 s3 s2 s1)
qed

lemma be_uint_pack:
  assumes "pack_BE_L n = Some prefix"
  shows "n < 2 ^ 32 \<and> length prefix = 4 \<and> be_uint 0 prefix = n"
proof -
  have n: "n < 2 ^ 32"
    using assms by (simp add: pack_BE_L_def split: if_splits)
  then have p: "prefix = [char_of (n div 2 ^ 24 mod 256), char_of (n div 2 ^ 16 mod 256),
                 char_of (n div 2 ^ 8 mod 256), char_of (n mod 256)]"
    using assms by (simp add: pack_BE_L_def)
  have "be_uint 0 prefix = 256 * (256 * (256 * (n div 2 ^ 24 mod 256) + n div 2 ^ 16 mod 256)
           + n div 2 ^ 8 mod 256) + n mod 256"
    unfolding p by (simp del: power_numeral)
  then show ?thesis using n be_digits [OF n] p by simp
qed


lemma find_delim_no_hash: "CHR ''#'' \<notin> set m \<Longrightarrow> find_delim (m @ [CHR ''#'']) = None"
proof (induction m)
  case Nil
  show ?case by simp
next
  case (Cons a m)
  then show ?case by (cases m) auto
qed

lemma find_delim_first:
  "CHR ''#'' \<notin> set m \<Longrightarrow> find_delim (m @ CHR ''#'' # CHR ''#'' # r) = Some (length m)"
proof (induction m)
  case Nil
  show ?case by simp
next
  case (Cons a m)
  then show ?case by (cases m) auto
qed

lemma recv_step_message:
  "find_delim (buf @ chunk) = Some i \<Longrightarrow>
   recv_step loads dumps chunk buf c =
     (case parse_msg loads dumps (take i (buf @ chunk)) c of
        (Inl e, c1) \<Rightarrow> (Inl e, emit [Print ''Closing connection with {}:{}'' [], Close] c1)
      | (Inr u, c1) \<Rightarrow> (Inr (drop (i + 2) (buf @ chunk)), c1))"
  by (simp add: recv_step_def)

lemma recv_step_wait:
  "find_delim (buf @ chunk) = None \<Longrightarrow> recv_step loads dumps chunk buf c = (Inr (buf @ chunk), c)"
  by (simp add: recv_step_def)

lemma recv_step_frame:
  assumes "CHR ''#'' \<notin> set m"
  shows "recv_step loads dumps (CHR ''#'' # r) (m @ [CHR ''#'']) c =
     (case parse_msg loads dumps m c of
        (Inl e, c1) \<Rightarrow> (Inl e, emit [Print ''Closing connection with {}:{}'' [], Close] c1)
      | (Inr u, c1) \<Rightarrow> (Inr r, c1))"
  using recv_step_message [of "m @ [CHR ''#'']" "CHR ''#'' # r" "length m" loads dumps c]
    find_delim_first [OF assms, of r]
  by (simp split: prod.splits sum.splits)

lemma recv_step_whole_frame:
  assumes "CHR ''#'' \<notin> set m"
  shows "recv_step loads dumps (m @ CHR ''#'' # CHR ''#'' # r) [] c =
     (case parse_msg loads dumps m c of
        (Inl e, c1) \<Rightarrow> (Inl e, emit [Print ''Closing connection with {}:{}'' [], Close] c1)
      | (Inr u, c1) \<Rightarrow> (Inr r, c1))"
  using recv_step_message [of "[]" "m @ CHR ''#'' # CHR ''#'' # r" "length m" loads dumps c]
    find_delim_first [OF assms, of r]
  by (simp split: prod.splits sum.splits)

lemma split_reads_one_message:
  assumes "CHR ''#'' \<notin> set m1"
  shows "recv_loop loads dumps [m1 @ [CHR ''#''], CHR ''#'' # m2 @ ''##''] [] c =
     (case parse_msg loads dumps m1 c of
        (Inl e, c1) \<Rightarrow> (Inl e, emit [Print ''Closing connection with {}:{}'' [], Close] c1)
      | (Inr u, c1) \<Rightarrow> (Inr (m2 @ ''##''), c1))"
  using recv_step_wait [of "[]" "m1 @ [CHR ''#'']" loads dumps c] find_delim_no_hash [OF assms]
    recv_step_frame [OF assms, of loads dumps "m2 @ ''##''" c]
  by (simp split: prod.splits sum.splits)

lemma parse_msg_pause:
  assumes "loads msg = Some (PDict kvs)" "map_of kvs ''op'' = Some (PStr s)"
    "hex_literal s = Some 6" "pilot c = Some pl"
  shows "parse_msg loads dumps msg c =
     (Inr (), (emit ((if map_of kvs ''params'' = None
                     then [Print ''No supported operation'' [PDict kvs]] else [])
                    @ [LogInfo ''Pausing simulation'' [], ServiceCall ''/gazebo/pause_physics'']) c)
              \<lparr>pilot := Some (pl\<lparr>stop_event := True\<rparr>)\<rparr>)"
  by (simp add: parse_msg_def parse_msg_fields_op [OF assms(2,3)] assms(1,4)
      pause_gazebo_simulation_def emit_emit) (simp add: emit_def assms(4))

lemma parse_msg_unpause:
  assumes "loads msg = Some (PDict kvs)" "map_of kvs ''op'' = Some (PStr s)"
    "hex_literal s = Some 7" "pilot c = Some pl"
  shows "parse_msg loads dumps msg c =
     (Inr (), (emit ((if map_of kvs ''params'' = None
                     then [Print ''No supported operation'' [PDict kvs]] else [])
                    @ [LogInfo ''Resuming simulation'' []]) c)
              \<lparr>pilot := Some (pl\<lparr>stop_event := False\<rparr>)\<rparr>)"
  by (simp add: parse_msg_def parse_msg_fields_op [OF assms(2,3)] assms(1,4)
      unpause_gazebo_simulation_def emit_emit) (simp add: emit_def assms(4))

lemma parse_msg_reset:
  assumes "loads msg = Some (PDict kvs)" "map_of kvs ''op'' = Some (PStr s)"
    "hex_literal s = Some 8"
  shows "parse_msg loads dumps msg c =
     (Inr (), emit ((if map_of kvs ''params'' = None
                     then [Print ''No supported operation'' [PDict kvs]] else [])
                    @ [LogInfo ''Restarting simulation'' [], ServiceCall ''/gazebo/reset_world'']) c)"
  by (simp add: parse_msg_def parse_msg_fields_op [OF assms(2,3)] assms(1)
      reset_gazebo_simulation_def emit_emit)

lemma parse_msg_not_json:
  "loads msg = None \<Longrightarrow> parse_msg loads dumps msg c = (Inl ValueError, c)"
  by (simp add: parse_msg_def)

lemma parse_msg_no_op:
  "loads msg = Some (PDict kvs) \<Longrightarrow> map_of kvs ''op'' = None \<Longrightarrow>
   parse_msg loads dumps msg c =
     (Inl UnboundLocalError, emit [Print ''No supported operation'' [PDict kvs]] c)"
  by (simp add: parse_msg_def parse_msg_fields_no_op)


text \<open>The library tables and \<open>hex_literal\<close> at the frames of the examples.\<close>

lemma hex_06: "hex_literal ''06'' = Some 6"
  by (simp add: hex_literal_def strip_def is_space_def hex_digit_def)

lemma hex_07: "hex_literal ''07'' = Some 7"
  by (simp add: hex_literal_def strip_def is_space_def hex_digit_def)

lemma hex_08: "hex_literal ''08'' = Some 8"
  by (simp add: hex_literal_def strip_def is_space_def hex_digit_def)

lemma hex_09: "hex_literal ''09'' = Some 9"
  by (simp add: hex_literal_def strip_def is_space_def hex_digit_def)

lemma loads_06:
  \<open>frame_loads ''{"op":"06","params":[]}'' = Some (PDict [(''op'', PStr ''06''), (''params'', PList [])])\<close>
  by (simp add: frame_loads_def)

lemma loads_07:
  \<open>frame_loads ''{"op":"07","params":[]}'' = Some (PDict [(''op'', PStr ''07''), (''params'', PList [])])\<close>
  by (simp add: frame_loads_def)

lemma loads_08:
  \<open>frame_loads ''{"op":"08","params":[]}'' = Some (PDict [(''op'', PStr ''08''), (''params'', PList [])])\<close>
  by (simp add: frame_loads_def)

lemma loads_09:
  \<open>frame_loads ''{"op":"09","params":[]}'' = Some (PDict [(''op'', PStr ''09''), (''params'', PList [])])\<close>
  by (simp add: frame_loads_def)

lemma loads_empty_object: \<open>frame_loads ''{}'' = Some (PDict [])\<close>
  by (simp add: frame_loads_def)

lemma loads_cut_off: \<open>frame_loads ''{"op":'' = None\<close>
  by (simp add: frame_loads_def)

lemma pilot_set_pilot: "pilot (set_pilot p c) = Some p"
  by (simp add: set_pilot_def)

lemma pause_frame:
  \<open>pilot c = Some pl \<Longrightarrow>
   parse_msg frame_loads dumps ''{"op":"06","params":[]}'' c =
     (Inr (), (emit [LogInfo ''Pausing simulation'' [], ServiceCall ''/gazebo/pause_physics''] c)
                \<lparr>pilot := Some (pl\<lparr>stop_event := True\<rparr>)\<rparr>)\<close>
  using parse_msg_pause [of frame_loads _ "[(''op'', PStr ''06''), (''params'', PList [])]" "''06''" c pl dumps]
    loads_06 hex_06
  by simp

lemma unpause_frame:
  \<open>pilot c = Some pl \<Longrightarrow>
   parse_msg frame_loads dumps ''{"op":"07","params":[]}'' c =
     (Inr (), (emit [LogInfo ''Resuming simulation'' []] c)
                \<lparr>pilot := Some (pl\<lparr>stop_event := False\<rparr>)\<rparr>)\<close>
  using parse_msg_unpause [of frame_loads _ "[(''op'', PStr ''07''), (''params'', PList [])]" "''07''" c pl dumps]
    loads_07 hex_07
  by simp

lemma reset_frame:
  \<open>parse_msg frame_loads dumps ''{"op":"08","params":[]}'' c =
     (Inr (), emit [LogInfo ''Restarting simulation'' [], ServiceCall ''/gazebo/reset_world''] c)\<close>
  using parse_msg_reset [of frame_loads _ "[(''op'', PStr ''08''), (''params'', PList [])]" "''08''" dumps c]
    loads_08 hex_08
  by simp

lemma stop_record_not_recording:
  "rosbag_proc c = Some proc \<Longrightarrow> \<not> recording c \<Longrightarrow>
   stop_record c = (Inr (), emit [LogInfo ''No bag recording'' []] c)"
  by (simp add: stop_record_def)

text \<open>Recording: a start while a session is active, a start from idle, and the example run.\<close>

lemma record_rosbag_while_recording:
  "recording c \<Longrightarrow> rosbag_proc c = Some proc \<Longrightarrow>
   record_rosbag split topics dataset_name c =
     (Inr (),
      (emit [LogInfo ''Rosbag already recording'' [], LogInfo ''Stopping bag recording'' [],
             OpenWrite ''logs/.roslaunch_stdout.log'', OpenWrite ''logs/.roslaunch_stderr.log'',
             Popen [''rosnode'', ''kill'', ''/behav_bag'']] c)\<lparr>recording := False\<rparr>)"
  by (simp add: record_rosbag_def stop_record_def emit_def)

lemma record_rosbag_started:
  assumes "\<not> recording c" "record_rosbag split topics dataset_name c = (Inr (), c1)"
  shows "recording c1 \<and> (\<exists>argv. rosbag_proc c1 = Some argv)"
  using assms
  by (auto simp add: record_rosbag_def emit_def Let_def split: option.splits)

lemma bag_split_run1:
  "bag_split (''rosbag record -O '' @ ''run1.bag'' @ '' '' @
       str_join '' '' [''/F1ROS/cmd_vel'', ''/F1ROS/cameraL/image_raw''] @ '' __name:=behav_bag'')
   = Some [''rosbag'', ''record'', ''-O'', ''run1.bag'', ''/F1ROS/cmd_vel'',
           ''/F1ROS/cameraL/image_raw'', ''__name:=behav_bag'']"
  by (simp add: bag_split_def)

lemma record_run1:
  "record_rosbag bag_split [] ''run1.bag'' (Controller_init False) =
     (Inr (),
      (Controller_init False)
        \<lparr>recording := True,
         rosbag_proc := Some [''rosbag'', ''record'', ''-O'', ''run1.bag'', ''/F1ROS/cmd_vel'',
                              ''/F1ROS/cameraL/image_raw'', ''__name:=behav_bag''],
         trace := [LogInfo ''Recording bag at: {}'' [PStr ''run1.bag''],
                   OpenWrite ''logs/.roslaunch_stdout.log'',
                   OpenWrite ''logs/.roslaunch_stderr.log'',
                   Popen [''rosbag'', ''record'', ''-O'', ''run1.bag'', ''/F1ROS/cmd_vel'',
                          ''/F1ROS/cameraL/image_raw'', ''__name:=behav_bag'']]\<rparr>)"
  using bag_split_run1
  by (simp add: record_rosbag_def Let_def emit_def Controller_init_def del: str_join.simps append.simps)

text \<open>When \<^verbatim>\<open>send_response\<close> raises, nothing was sent.\<close>

lemma send_response_raises:
  "dumps d = None \<or> (\<exists>payload. dumps d = Some payload \<and> 2 ^ 32 \<le> length payload) \<Longrightarrow>
   snd (send_response dumps d c) = c \<and> (\<exists>e. fst (send_response dumps d c) = Inl e)"
  by (auto simp add: send_response_def pack_BE_L_def)

subsection \<open>The shared state store\<close>

lemma data_update_frames:
  "k \<notin> fst ` set ws \<Longrightarrow> data (update_frames ws c) k = data c k"
  by (induction ws arbitrary: c) (auto simp: update_frame_def)

text \<open>
  Claim C4. A key that was never written reads as Python's \<^verbatim>\<open>None\<close>, the explicit "no
  value", and the read returns instead of raising: whatever other keys the producer has
  written since the controller was constructed, \<^verbatim>\<open>get_data(k)\<close> returns \<^verbatim>\<open>None\<close>. And
  immediately after \<^verbatim>\<open>update_frame(k, v)\<close>, \<^verbatim>\<open>get_data(k)\<close> returns exactly \<open>v\<close>.
\<close>

theorem get_data_never_written_and_roundtrip:
  "(k \<notin> fst ` set ws \<longrightarrow>
      get_data (PStr k) (update_frames ws (Controller_init h)) = Inr PNone) \<and>
   get_data (PStr k) (update_frame k v c) = Inr v"
  by (simp add: get_data_def data_update_frames) (simp add: Controller_init_def update_frame_def)

theorem get_data_never_written_and_roundtrip_witness:
  "''camera'' \<notin> fst ` set [(''lidar'', PInt 1), (''pose'', PNone)] \<and>
   get_data (PStr ''camera'')
     (update_frames [(''lidar'', PInt 1), (''pose'', PNone)] (Controller_init False)) = Inr PNone \<and>
   get_data (PStr ''camera'') (update_frame ''camera'' (PObj 7) (Controller_init False))
     = Inr (PObj 7)"
  using get_data_never_written_and_roundtrip
    [of "''camera''" "[(''lidar'', PInt 1), (''pose'', PNone)]" False "PObj 7"
        "Controller_init False"]
  by simp

text \<open>
  Claim C10. \<^verbatim>\<open>update_frame(k, v)\<close> changes the entry of \<open>k\<close> only: every other key, text
  or not, reads the same before and after the call, and the pose slot, the recording flag
  and every other attribute are left as they were.
\<close>

theorem update_frame_frame:
  "key \<noteq> PStr k \<Longrightarrow>
     get_data key (update_frame k v c) = get_data key c \<and>
     get_pose3D (update_frame k v c) = get_pose3D c \<and>
     pose3D_data (update_frame k v c) = pose3D_data c \<and>
     recording (update_frame k v c) = recording c \<and>
     rosbag_proc (update_frame k v c) = rosbag_proc c \<and>
     pilot (update_frame k v c) = pilot c \<and>
     headless (update_frame k v c) = headless c \<and>
     trace (update_frame k v c) = trace c"
  by (cases key) (simp_all add: get_data_def update_frame_def get_pose3D_def)

theorem update_frame_frame_witness:
  "PStr ''lidar'' \<noteq> PStr ''camera'' \<and>
   get_data (PStr ''lidar'')
     (update_frame ''camera'' (PObj 7) (update_frame ''lidar'' (PInt 3) (Controller_init False)))
     = Inr (PInt 3) \<and>
   get_data (PStr ''lidar'') (update_frame ''lidar'' (PInt 3) (Controller_init False))
     = Inr (PInt 3)"
  using update_frame_frame
    [of "PStr ''lidar''" "''camera''" "PObj 7" "update_frame ''lidar'' (PInt 3) (Controller_init False)"]
  by (simp add: get_data_def update_frame_def)

subsection \<open>The dispatcher and the connection server\<close>

text \<open>
  Claim C1. On the frame \<^verbatim>\<open>{"op":"06","params":[]}##\<close> the pause path runs once: the service
  \<^verbatim>\<open>/gazebo/pause_physics\<close> is called once and the pilot's stop event is set. The claim also
  says that the acknowledgement \<^verbatim>\<open>200\<close> is sent back as an outbound frame. The code assigns
  \<^verbatim>\<open>response = b'200'\<close> and never passes it to \<^verbatim>\<open>send_response\<close>: after the frame, the trace
  of a headless controller with a pilot holds the start-up line, the log line and the
  service call, and no \<open>SendAll\<close>.
\<close>

theorem pause_op_sends_no_acknowledgement:
  \<open>recv_loop frame_loads none_dumps [''{"op":"06","params":[]}##''] []
      (set_pilot idle_pilot (Controller_init True)) =
    (Inr [],
     (set_pilot idle_pilot (Controller_init True))
       \<lparr>pilot := Some (idle_pilot\<lparr>stop_event := True\<rparr>),
        trace := [Print ''Starting server at {}:{}'' [PStr ''localhost'', PInt 8888],
                  LogInfo ''Pausing simulation'' [],
                  ServiceCall ''/gazebo/pause_physics'']\<rparr>)\<close>
  using recv_step_whole_frame [of \<open>''{"op":"06","params":[]}''\<close> frame_loads none_dumps "[]"
      "set_pilot idle_pilot (Controller_init True)"]
    pause_frame [OF pilot_set_pilot, of none_dumps idle_pilot "Controller_init True"]
  by (simp add: emit_def set_pilot_def Controller_init_def)

text \<open>
  Claim C5. The claim says that op code 07 resumes the simulation physics and lets the
  control loop continue. \<^verbatim>\<open>unpause_gazebo_simulation\<close> logs "Resuming simulation" and clears
  the stop event, but its call of \<^verbatim>\<open>/gazebo/unpause_physics\<close> is commented out: after a
  pause frame and a resume frame the only service that was called is
  \<^verbatim>\<open>/gazebo/pause_physics\<close>, so the physics stay paused while the stop event is clear.
\<close>

theorem unpause_op_calls_no_physics_service:
  \<open>recv_loop frame_loads none_dumps
      [''{"op":"06","params":[]}##'', ''{"op":"07","params":[]}##''] []
      (set_pilot idle_pilot (Controller_init True)) =
    (Inr [],
     (set_pilot idle_pilot (Controller_init True))
       \<lparr>pilot := Some (idle_pilot\<lparr>stop_event := False\<rparr>),
        trace := [Print ''Starting server at {}:{}'' [PStr ''localhost'', PInt 8888],
                  LogInfo ''Pausing simulation'' [],
                  ServiceCall ''/gazebo/pause_physics'',
                  LogInfo ''Resuming simulation'' []]\<rparr>)\<close>
proof -
  let ?c0 = "set_pilot idle_pilot (Controller_init True)"
  let ?c1 = "(emit [LogInfo ''Pausing simulation'' [], ServiceCall ''/gazebo/pause_physics''] ?c0)
                \<lparr>pilot := Some (idle_pilot\<lparr>stop_event := True\<rparr>)\<rparr>"
  have p1: "pilot ?c1 = Some (idle_pilot\<lparr>stop_event := True\<rparr>)"
    by simp
  have s1: \<open>recv_step frame_loads none_dumps ''{"op":"06","params":[]}##'' [] ?c0 = (Inr [], ?c1)\<close>
    using recv_step_whole_frame [of \<open>''{"op":"06","params":[]}''\<close> frame_loads none_dumps "[]" ?c0]
      pause_frame [OF pilot_set_pilot, of none_dumps idle_pilot "Controller_init True"]
    by simp
  have s2: \<open>recv_step frame_loads none_dumps ''{"op":"07","params":[]}##'' [] ?c1 =
      (Inr [], (emit [LogInfo ''Resuming simulation'' []] ?c1)
                 \<lparr>pilot := Some (idle_pilot\<lparr>stop_event := True, stop_event := False\<rparr>)\<rparr>)\<close>
    using recv_step_whole_frame [of \<open>''{"op":"07","params":[]}''\<close> frame_loads none_dumps "[]" ?c1]
      unpause_frame [OF p1, of none_dumps]
    by simp
  show ?thesis
    by (simp add: s1 s2) (simp add: emit_def set_pilot_def Controller_init_def)
qed

text \<open>
  Claim C2. The claim says that a frame that is not a JSON object with the required
  fields is reported and dropped, and that later frames of the connection are still
  processed. In the code, the frame \<^verbatim>\<open>{}\<close> is reported by the \<^verbatim>\<open>except\<close> branch, but then line
  125 reads the unbound local \<^verbatim>\<open>op\<close>; the frame \<^verbatim>\<open>{"op":\<close> makes \<^verbatim>\<open>json.loads\<close> raise before the
  \<^verbatim>\<open>try\<close>, with no report. Either exception leaves the receive loop through its
  \<^verbatim>\<open>finally\<close>, which closes the connection, and the valid reset frame that follows is
  never processed.
\<close>

theorem undecodable_frame_closes_connection:
  \<open>recv_loop frame_loads none_dumps [''{}##'', ''{"op":"08","params":[]}##''] []
      (Controller_init True) =
    (Inl UnboundLocalError,
     emit [Print ''No supported operation'' [PDict []],
           Print ''Closing connection with {}:{}'' [], Close] (Controller_init True)) \<and>
   recv_loop frame_loads none_dumps [''{"op":##'', ''{"op":"08","params":[]}##''] []
      (Controller_init True) =
    (Inl ValueError,
     emit [Print ''Closing connection with {}:{}'' [], Close] (Controller_init True))\<close>
proof -
  have a: \<open>recv_step frame_loads none_dumps ''{}##'' [] (Controller_init True) =
      (Inl UnboundLocalError,
       emit [Print ''No supported operation'' [PDict []],
             Print ''Closing connection with {}:{}'' [], Close] (Controller_init True))\<close>
    using recv_step_whole_frame [of \<open>''{}''\<close> frame_loads none_dumps "[]" "Controller_init True"]
      parse_msg_no_op [of frame_loads "''{}''" "[]" none_dumps "Controller_init True"]
      loads_empty_object
    by (simp add: emit_emit)
  have b: \<open>recv_step frame_loads none_dumps ''{"op":##'' [] (Controller_init True) =
      (Inl ValueError,
       emit [Print ''Closing connection with {}:{}'' [], Close] (Controller_init True))\<close>
    using recv_step_whole_frame [of \<open>''{"op":''\<close> frame_loads none_dumps "[]" "Controller_init True"]
      parse_msg_not_json [of frame_loads _ none_dumps "Controller_init True"] loads_cut_off
    by simp
  show ?thesis
    by (simp add: a b)
qed

text \<open>
  Claim C3. The claim says that after each read every complete message of the buffer is
  dispatched, so that \<^verbatim>\<open>{...}#\<close> followed by \<^verbatim>\<open>#{...}##\<close> gives two decoded messages. The
  test of line 98 is an \<^verbatim>\<open>if\<close>, not a loop: the second read completes both messages, the
  first (a pause) is dispatched, and the second (a reset) stays in the buffer, whole with
  its delimiter, until some later \<^verbatim>\<open>recv\<close> returns.
\<close>

theorem second_message_waits_for_next_read:
  \<open>recv_loop frame_loads none_dumps
      [''{"op":"06","params":[]}#'', ''#{"op":"08","params":[]}##''] []
      (set_pilot idle_pilot (Controller_init True)) =
    (Inr ''{"op":"08","params":[]}##'',
     (set_pilot idle_pilot (Controller_init True))
       \<lparr>pilot := Some (idle_pilot\<lparr>stop_event := True\<rparr>),
        trace := [Print ''Starting server at {}:{}'' [PStr ''localhost'', PInt 8888],
                  LogInfo ''Pausing simulation'' [],
                  ServiceCall ''/gazebo/pause_physics'']\<rparr>)\<close>
  using split_reads_one_message [of \<open>''{"op":"06","params":[]}''\<close> frame_loads none_dumps
      \<open>''{"op":"08","params":[]}''\<close> "set_pilot idle_pilot (Controller_init True)"]
    pause_frame [OF pilot_set_pilot, of none_dumps idle_pilot "Controller_init True"]
  by (simp add: emit_def set_pilot_def Controller_init_def)

text \<open>
  Claim C7. Let a round of the receive loop cut off a frame that decodes to an object
  whose \<^verbatim>\<open>op\<close> is a hexadecimal literal with a value outside 1..8 (such as \<^verbatim>\<open>"09"\<close>). Then
  \<^verbatim>\<open>parse_msg\<close> returns normally, and all it does is print "Undefined operation" (after
  "No supported operation" when the object has no \<^verbatim>\<open>params\<close>): nothing is sent and the
  controller is otherwise unchanged. The round ends with the connection open and the rest
  of the buffer kept, and the loop goes on with the reads that follow exactly as it would
  from that state, so the next valid frame is served.
\<close>

theorem undefined_operation_no_reply:
  assumes "find_delim (buf @ chunk) = Some i"
      and "loads (take i (buf @ chunk)) = Some (PDict kvs)"
      and "map_of kvs ''op'' = Some (PStr s)"
      and "hex_literal s = Some n"
      and "n < 1 \<or> 8 < n"
  shows "parse_msg loads dumps (take i (buf @ chunk)) c =
           (Inr (), emit ((if map_of kvs ''params'' = None
                           then [Print ''No supported operation'' [PDict kvs]] else [])
                          @ [Print ''Undefined operation'' []]) c) \<and>
         recv_step loads dumps chunk buf c =
           (Inr (drop (i + 2) (buf @ chunk)),
            emit ((if map_of kvs ''params'' = None
                   then [Print ''No supported operation'' [PDict kvs]] else [])
                  @ [Print ''Undefined operation'' []]) c) \<and>
         recv_loop loads dumps (chunk # chunks) buf c =
           recv_loop loads dumps chunks (drop (i + 2) (buf @ chunk))
             (emit ((if map_of kvs ''params'' = None
                     then [Print ''No supported operation'' [PDict kvs]] else [])
                    @ [Print ''Undefined operation'' []]) c)"
proof -
  note p = parse_msg_undefined [of loads "take i (buf @ chunk)" kvs s n dumps c, OF assms(2-5)]
  have st: "recv_step loads dumps chunk buf c =
           (Inr (drop (i + 2) (buf @ chunk)),
            emit ((if map_of kvs ''params'' = None
                   then [Print ''No supported operation'' [PDict kvs]] else [])
                  @ [Print ''Undefined operation'' []]) c)"
    by (simp only: recv_step_message [OF assms(1)] p prod.case sum.case)
  show ?thesis
    by (simp only: p st recv_loop.simps prod.case sum.case simp_thms)
qed

theorem undefined_operation_no_reply_witness:
  \<open>find_delim ([] @ ''{"op":"09","params":[]}##'') = Some 23 \<and>
   frame_loads (take 23 ([] @ ''{"op":"09","params":[]}##'')) =
     Some (PDict [(''op'', PStr ''09''), (''params'', PList [])]) \<and>
   map_of [(''op'', PStr ''09''), (''params'', PList [])] ''op'' = Some (PStr ''09'') \<and>
   hex_literal ''09'' = Some 9 \<and>
   ((9::int) < 1 \<or> (8::int) < 9) \<and>
   recv_step frame_loads none_dumps ''{"op":"09","params":[]}##'' [] (Controller_init True) =
     (Inr [], emit [Print ''Undefined operation'' []] (Controller_init True)) \<and>
   recv_loop frame_loads none_dumps
       [''{"op":"09","params":[]}##'', ''{"op":"08","params":[]}##''] [] (Controller_init True) =
     (Inr [], emit [Print ''Undefined operation'' [], LogInfo ''Restarting simulation'' [],
                    ServiceCall ''/gazebo/reset_world''] (Controller_init True))\<close>
proof -
  have d: \<open>find_delim ([] @ ''{"op":"09","params":[]}##'') = Some 23\<close>
    by simp
  have l: \<open>frame_loads (take 23 ([] @ ''{"op":"09","params":[]}##'')) =
     Some (PDict [(''op'', PStr ''09''), (''params'', PList [])])\<close>
    by (simp add: loads_09)
  have m: "map_of [(''op'', PStr ''09''), (''params'', PList [])] ''op'' = Some (PStr ''09'')"
    by simp
  have n: "(9::int) < 1 \<or> (8::int) < 9"
    by simp
  have nxt: \<open>recv_step frame_loads none_dumps ''{"op":"08","params":[]}##'' []
        (emit [Print ''Undefined operation'' []] (Controller_init True)) =
      (Inr [], emit [Print ''Undefined operation'' [], LogInfo ''Restarting simulation'' [],
                    ServiceCall ''/gazebo/reset_world''] (Controller_init True))\<close>
    using recv_step_whole_frame [of \<open>''{"op":"08","params":[]}''\<close> frame_loads none_dumps "[]"
        "emit [Print ''Undefined operation'' []] (Controller_init True)"]
    by (simp add: reset_frame emit_emit)
  show ?thesis
    using undefined_operation_no_reply
        [where buf = "[]" and chunk = \<open>''{"op":"09","params":[]}##''\<close> and i = 23
           and loads = frame_loads and kvs = "[(''op'', PStr ''09''), (''params'', PList [])]"
           and s = "''09''" and n = 9 and dumps = none_dumps and c = "Controller_init True"
           and chunks = \<open>[''{"op":"08","params":[]}##'']\<close>,
         OF d l m hex_09 n]
      d l hex_09 nxt
    by simp
qed

subsection \<open>Recording\<close>

text \<open>
  Claim C6. The claim says that \<^verbatim>\<open>stop_record\<close> with no active session, also on a freshly
  constructed controller, reports and returns. \<^verbatim>\<open>__init__\<close> never assigns
  \<^verbatim>\<open>rosbag_proc\<close>, which the condition of \<^verbatim>\<open>stop_record\<close> reads first: on a fresh controller
  the call raises \<^verbatim>\<open>AttributeError\<close> and logs nothing. (Once a recording has been
  started and stopped, the call does log "No bag recording" and change nothing:
  \<open>stop_record_not_recording\<close>.)
\<close>

theorem stop_record_on_fresh_controller_raises:
  "stop_record (Controller_init h) = (Inl AttributeError, Controller_init h)"
  by (simp add: stop_record_def Controller_init_def)

text \<open>
  Claim C8. Starting a recording while a session is active stops that session and starts
  no other. If \<^verbatim>\<open>record_rosbag\<close> is called on a controller that is not recording and returns,
  the session is active; a second call right after it returns too, logs "Rosbag already
  recording", stops the session once (one "Stopping bag recording", one
  \<^verbatim>\<open>rosnode kill /behav_bag\<close>), starts no process of its own, and leaves \<^verbatim>\<open>recording\<close> false
  and \<^verbatim>\<open>rosbag_proc\<close> as it was.
\<close>

theorem record_rosbag_twice_stops_session:
  assumes "\<not> recording c"
      and "record_rosbag split topics1 name1 c = (Inr (), c1)"
  shows "recording c1 \<and>
         record_rosbag split topics2 name2 c1 =
           (Inr (),
            (emit [LogInfo ''Rosbag already recording'' [], LogInfo ''Stopping bag recording'' [],
                   OpenWrite ''logs/.roslaunch_stdout.log'',
                   OpenWrite ''logs/.roslaunch_stderr.log'',
                   Popen [''rosnode'', ''kill'', ''/behav_bag'']] c1)\<lparr>recording := False\<rparr>) \<and>
         \<not> recording (snd (record_rosbag split topics2 name2 c1)) \<and>
         rosbag_proc (snd (record_rosbag split topics2 name2 c1)) = rosbag_proc c1"
proof -
  from record_rosbag_started [OF assms]
  obtain argv where r: "recording c1" and p: "rosbag_proc c1 = Some argv"
    by blast
  show ?thesis
    using r by (simp add: record_rosbag_while_recording [OF r p] emit_def)
qed

theorem record_rosbag_twice_stops_session_witness:
  "\<not> recording (Controller_init False) \<and>
   fst (record_rosbag bag_split [] ''run1.bag'' (Controller_init False)) = Inr () \<and>
   recording (snd (record_rosbag bag_split [] ''run1.bag'' (Controller_init False))) \<and>
   fst (record_rosbag bag_split [] ''run2.bag''
          (snd (record_rosbag bag_split [] ''run1.bag'' (Controller_init False)))) = Inr () \<and>
   \<not> recording (snd (record_rosbag bag_split [] ''run2.bag''
          (snd (record_rosbag bag_split [] ''run1.bag'' (Controller_init False))))) \<and>
   trace (snd (record_rosbag bag_split [] ''run2.bag''
          (snd (record_rosbag bag_split [] ''run1.bag'' (Controller_init False))))) =
     [LogInfo ''Recording bag at: {}'' [PStr ''run1.bag''],
      OpenWrite ''logs/.roslaunch_stdout.log'', OpenWrite ''logs/.roslaunch_stderr.log'',
      Popen [''rosbag'', ''record'', ''-O'', ''run1.bag'', ''/F1ROS/cmd_vel'',
             ''/F1ROS/cameraL/image_raw'', ''__name:=behav_bag''],
      LogInfo ''Rosbag already recording'' [], LogInfo ''Stopping bag recording'' [],
      OpenWrite ''logs/.roslaunch_stdout.log'', OpenWrite ''logs/.roslaunch_stderr.log'',
      Popen [''rosnode'', ''kill'', ''/behav_bag'']]"
proof -
  have idle: "\<not> recording (Controller_init False)"
    by (simp add: Controller_init_def)
  show ?thesis
    using idle record_rosbag_twice_stops_session [OF idle record_run1, of "[]" "''run2.bag''"]
    by (simp add: record_run1 emit_def)
qed

subsection \<open>Outbound frames\<close>

text \<open>
  Claim C9. Whenever \<^verbatim>\<open>send_response\<close> sends, that is, when the value serialises to a
  payload of fewer than \<open>2 ^ 32\<close> bytes, it makes exactly one \<^verbatim>\<open>sendall\<close>, and its bytes are
  four bytes that read, most significant first, as the length \<open>N\<close> of the payload,
  followed by the \<open>N\<close> bytes of the payload. (In the other cases it raises and sends
  nothing: \<open>send_response_raises\<close>.)
\<close>

theorem send_response_length_prefixed:
  assumes "dumps d = Some payload" and "length payload < 2 ^ 32"
  shows "\<exists>prefix. pack_BE_L (length payload) = Some prefix \<and>
           length prefix = 4 \<and> be_uint 0 prefix = length payload \<and>
           send_response dumps d c = (Inr (), emit [SendAll (prefix @ payload)] c) \<and>
           trace (snd (send_response dumps d c)) = trace c @ [SendAll (prefix @ payload)]"
proof -
  obtain prefix where p: "pack_BE_L (length payload) = Some prefix"
    using assms(2) by (simp add: pack_BE_L_def)
  from be_uint_pack [OF p] have b: "length prefix = 4" "be_uint 0 prefix = length payload"
    by simp_all
  have "send_response dumps d c = (Inr (), emit [SendAll (prefix @ payload)] c)"
    by (simp add: send_response_def assms(1) p)
  then show ?thesis
    using p b by (simp add: emit_def)
qed

theorem send_response_length_prefixed_witness:
  "none_dumps PNone = Some ''N.'' \<and> length ''N.'' < (2::nat) ^ 32 \<and>
   (\<exists>prefix. pack_BE_L (length ''N.'') = Some prefix \<and>
      length prefix = 4 \<and> be_uint 0 prefix = length ''N.'' \<and>
      send_response none_dumps PNone (Controller_init False) =
        (Inr (), emit [SendAll (prefix @ ''N.'')] (Controller_init False)) \<and>
      trace (snd (send_response none_dumps PNone (Controller_init False))) =
        trace (Controller_init False) @ [SendAll (prefix @ ''N.'')])"
proof -
  have a: "none_dumps PNone = Some ''N.''"
    by (simp add: none_dumps_def)
  have b: "length ''N.'' < (2::nat) ^ 32"
    by simp
  show ?thesis
    using a b
      send_response_length_prefixed
        [of none_dumps PNone "''N.''" "Controller_init False", OF a b]
    by blast
qed

end
